theory Spec2Isabelle
  imports Complex_Main "HOL-Library.Word" "HOL-Library.Signed_Division"
begin

section \<open>Zone weather of src/server/game/Weather/Weather.cpp\<close>

text \<open>
  The class \<^verbatim>\<open>Weather\<close> holds a timer, a weather type, an intensity and a pointer to
  the per-season chances of its zone. Its member functions are embedded as functions on
  a record of these fields; what a member function sends to the map, the script manager
  and the event system is returned as a list of events, in the order of the calls.

  Numbers. \<^verbatim>\<open>uint32\<close> is \<open>32 word\<close>; \<^verbatim>\<open>tm_yday\<close> and the \<^verbatim>\<open>time_t\<close> of the timer are
  \<open>int\<close>. The \<^verbatim>\<open>float\<close> intensity is embedded as the real number it denotes: the
  comparisons of the source are the comparisons of reals, and \<open>+\<close>, \<open>-\<close>, \<open>*\<close> are
  exact. The thresholds \<^verbatim>\<open>0.27f\<close>, \<^verbatim>\<open>0.40f\<close> and \<^verbatim>\<open>0.70f\<close> of
  \<^verbatim>\<open>GetWeatherState\<close> are the single-precision numbers that these literals denote,
  so that the embedding decides as the code does on every single-precision intensity,
  the thresholds themselves included. The other literals are written as the decimals
  of the source; in \<^verbatim>\<open>ReGenerate\<close> a comparison with \<open>0.33333334\<close> or
  \<open>0.6666667\<close> has the same outcome on every single-precision number as the
  comparison with the literal. NaN, the infinities and the rounding of single precision
  are outside this embedding.

  Randomness and the surroundings are arguments: each call of \<^verbatim>\<open>urand\<close> and
  \<^verbatim>\<open>rand_norm\<close> reads its own field of a record of draws, the game time gives
  \<^verbatim>\<open>tm_yday\<close>, and the answer of \<^verbatim>\<open>Map::SendZoneMessage\<close> is a boolean.
\<close>

subsection \<open>Data\<close>

type_synonym uint32 = "32 word"

text \<open>
  The enumeration \<^verbatim>\<open>WeatherType\<close>. The last constructor stands for any other value of
  the enumeration's underlying integer, which the \<^verbatim>\<open>default:\<close> label of
  \<^verbatim>\<open>GetWeatherState\<close> catches.
\<close>

datatype WeatherType =
    WEATHER_TYPE_FINE
  | WEATHER_TYPE_RAIN
  | WEATHER_TYPE_SNOW
  | WEATHER_TYPE_STORM
  | WEATHER_TYPE_THUNDERS
  | WEATHER_TYPE_BLACKRAIN
  | WEATHER_TYPE_OTHER int

text \<open>The values of \<^verbatim>\<open>WeatherState\<close> that Weather.cpp names.\<close>

datatype WeatherState =
    WEATHER_STATE_FINE
  | WEATHER_STATE_FOG
  | WEATHER_STATE_LIGHT_RAIN
  | WEATHER_STATE_MEDIUM_RAIN
  | WEATHER_STATE_HEAVY_RAIN
  | WEATHER_STATE_LIGHT_SNOW
  | WEATHER_STATE_MEDIUM_SNOW
  | WEATHER_STATE_HEAVY_SNOW
  | WEATHER_STATE_LIGHT_SANDSTORM
  | WEATHER_STATE_MEDIUM_SANDSTORM
  | WEATHER_STATE_HEAVY_SANDSTORM
  | WEATHER_STATE_THUNDERS
  | WEATHER_STATE_BLACKRAIN

text \<open>
  Modelled from the spec: the structures \<^verbatim>\<open>WeatherSeasonChances\<close> and \<^verbatim>\<open>WeatherData\<close>
  are declared in a header that is not part of the sources at hand. The spec (section 3)
  gives one entry per season with integer percentage chances for rain, snow and storm;
  Weather.cpp reads them as \<^verbatim>\<open>data[season].rainChance\<close>, \<^verbatim>\<open>.snowChance\<close>,
  \<^verbatim>\<open>.stormChance\<close> and adds them as \<^verbatim>\<open>uint32\<close>.
\<close>

record WeatherSeasonChances =
  rainChance :: uint32
  snowChance :: uint32
  stormChance :: uint32

record WeatherData =
  data :: "nat \<Rightarrow> WeatherSeasonChances"

text \<open>
  Modelled from the spec: \<^verbatim>\<open>IntervalTimer\<close> is declared in a header that is not part
  of the sources at hand. The spec (section 4.1, Tick) says: the timer advances by the
  elapsed time, has reached its threshold when the current value is at least the
  interval, and resets to zero.
\<close>

record IntervalTimer =
  t_interval :: int
  t_current :: int

definition GetCurrent :: "IntervalTimer \<Rightarrow> int" where
  "GetCurrent t = t_current t"

definition SetCurrent :: "int \<Rightarrow> IntervalTimer \<Rightarrow> IntervalTimer" where
  "SetCurrent c t = t\<lparr>t_current := c\<rparr>"

definition timer_Update :: "int \<Rightarrow> IntervalTimer \<Rightarrow> IntervalTimer" where
  "timer_Update diff t = t\<lparr>t_current := t_current t + diff\<rparr>"

definition Passed :: "IntervalTimer \<Rightarrow> bool" where
  "Passed t \<longleftrightarrow> t_current t \<ge> t_interval t"

definition Reset :: "IntervalTimer \<Rightarrow> IntervalTimer" where
  "Reset t = t\<lparr>t_current := 0\<rparr>"

text \<open>The fields of \<^verbatim>\<open>Weather\<close>; a null \<^verbatim>\<open>m_weatherChances\<close> is \<open>None\<close>.\<close>

record Weather =
  m_timer :: IntervalTimer
  m_type :: WeatherType
  m_intensity :: real
  m_weatherChances :: "WeatherData option"

text \<open>The constructor (lines 40-48); the interval comes from the configuration.\<close>

definition Weather_new :: "int \<Rightarrow> WeatherData option \<Rightarrow> Weather" where
  "Weather_new interval weatherChances =
     \<lparr>m_timer = \<lparr>t_interval = interval, t_current = 0\<rparr>,
      m_type = WEATHER_TYPE_FINE,
      m_intensity = 0,
      m_weatherChances = weatherChances\<rparr>"

text \<open>
  The random draws of one pass of \<^verbatim>\<open>ReGenerate\<close>, one field per call site:
  \<^verbatim>\<open>urand(0, 99)\<close> of line 95, of line 150 and of line 194, \<^verbatim>\<open>urand(1, 100)\<close> of line 167,
  and \<^verbatim>\<open>rand_norm()\<close> of lines 189, 196 and 198 (at most one of them runs).
\<close>

record Random =
  urand_u :: uint32
  urand_heavy :: uint32
  urand_pick :: uint32
  urand_severe :: uint32
  rand_norm :: real

text \<open>What the functions send out, in order.\<close>

datatype event =
    SendZoneMessage WeatherState real
  | OnWeatherChange WeatherState real
  | FireOnWeatherChange
  | OnWeatherUpdate uint32
  | FireOnWeatherUpdate

subsection \<open>GetWeatherState (lines 311-347)\<close>

text \<open>
  The three literals of the function, as the single-precision numbers they denote:
  \<^verbatim>\<open>0.27f\<close> is 9059697 / 2^25 (just above 0.27), \<^verbatim>\<open>0.40f\<close> is 13421773 / 2^25 (just
  above 0.40) and \<^verbatim>\<open>0.70f\<close> is 11744051 / 2^24 (just below 0.70).
\<close>

definition float_0_27 :: real where
  "float_0_27 = 9059697 / 33554432"

definition float_0_40 :: real where
  "float_0_40 = 13421773 / 33554432"

definition float_0_70 :: real where
  "float_0_70 = 11744051 / 16777216"

definition GetWeatherState :: "Weather \<Rightarrow> WeatherState" where
  "GetWeatherState w =
     (if m_intensity w < float_0_27 then WEATHER_STATE_FINE
      else case m_type w of
        WEATHER_TYPE_RAIN \<Rightarrow>
          (if m_intensity w < float_0_40 then WEATHER_STATE_LIGHT_RAIN
           else if m_intensity w < float_0_70 then WEATHER_STATE_MEDIUM_RAIN
           else WEATHER_STATE_HEAVY_RAIN)
      | WEATHER_TYPE_SNOW \<Rightarrow>
          (if m_intensity w < float_0_40 then WEATHER_STATE_LIGHT_SNOW
           else if m_intensity w < float_0_70 then WEATHER_STATE_MEDIUM_SNOW
           else WEATHER_STATE_HEAVY_SNOW)
      | WEATHER_TYPE_STORM \<Rightarrow>
          (if m_intensity w < float_0_40 then WEATHER_STATE_LIGHT_SANDSTORM
           else if m_intensity w < float_0_70 then WEATHER_STATE_MEDIUM_SANDSTORM
           else WEATHER_STATE_HEAVY_SANDSTORM)
      | WEATHER_TYPE_BLACKRAIN \<Rightarrow> WEATHER_STATE_BLACKRAIN
      | WEATHER_TYPE_THUNDERS \<Rightarrow> WEATHER_STATE_THUNDERS
      | WEATHER_TYPE_FINE \<Rightarrow> WEATHER_STATE_FINE
      | WEATHER_TYPE_OTHER _ \<Rightarrow> WEATHER_STATE_FINE)"

subsection \<open>UpdateWeather (lines 219-293)\<close>

text \<open>
  \<open>players\<close> is the answer of \<^verbatim>\<open>m_map->SendZoneMessage\<close>: whether a player of the zone
  was found. The log line is not an event.
\<close>

definition UpdateWeather :: "bool \<Rightarrow> bool \<Rightarrow> Weather \<Rightarrow> bool \<times> Weather \<times> event list" where
  "UpdateWeather triggerScripts players w =
     (let w1 = (if m_intensity w \<ge> 1 then w\<lparr>m_intensity := 0.9999\<rparr>
                else if m_intensity w < 0 then w\<lparr>m_intensity := 0.0001\<rparr>
                else w);
          state = GetWeatherState w1;
          weather = SendZoneMessage state (m_intensity w1)
      in if \<not> players then (False, w1, [weather])
         else (True, w1,
                 [weather, OnWeatherChange state (m_intensity w1)]
                 @ (if triggerScripts then [FireOnWeatherChange] else [])))"

subsection \<open>SetWeather (lines 297-308)\<close>

definition SetWeather ::
  "WeatherType \<Rightarrow> real \<Rightarrow> bool \<Rightarrow> bool \<Rightarrow> Weather \<Rightarrow> Weather \<times> event list" where
  "SetWeather type intensity triggerScripts players w =
     (if m_type w = type \<and> m_intensity w = intensity then (w, [])
      else snd (UpdateWeather triggerScripts players
                  (w\<lparr>m_type := type, m_intensity := intensity\<rparr>)))"

subsection \<open>ReGenerate (lines 81-203)\<close>

text \<open>Line 109: C division and remainder on \<^verbatim>\<open>int\<close>, then the conversion to \<^verbatim>\<open>uint32\<close>.\<close>

definition season :: "int \<Rightarrow> nat" where
  "season tm_yday = unat (word_of_int (((tm_yday - 78 + 365) sdiv 91) smod 4) :: uint32)"

text \<open>Lines 115-119, "Get fair".\<close>

definition get_fair :: "uint32 \<Rightarrow> Weather \<Rightarrow> Weather" where
  "get_fair u w =
     (if u < 60 \<and> m_intensity w < 0.33333334
      then w\<lparr>m_type := WEATHER_TYPE_FINE, m_intensity := 0\<rparr>
      else w)"

text \<open>
  Lines 121-125, "Get better", and 127-131, "Get worse": \<open>Some\<close> is the
  \<^verbatim>\<open>return true\<close> with the state it leaves, \<open>None\<close> falls through.
\<close>

definition get_better :: "uint32 \<Rightarrow> Weather \<Rightarrow> (bool \<times> Weather) option" where
  "get_better u w =
     (if u < 60 \<and> m_type w \<noteq> WEATHER_TYPE_FINE
      then Some (True, w\<lparr>m_intensity := m_intensity w - 0.33333334\<rparr>)
      else None)"

definition get_worse :: "uint32 \<Rightarrow> Weather \<Rightarrow> (bool \<times> Weather) option" where
  "get_worse u w =
     (if u < 90 \<and> m_type w \<noteq> WEATHER_TYPE_FINE
      then Some (True, w\<lparr>m_intensity := m_intensity w + 0.33333334\<rparr>)
      else None)"

text \<open>
  Lines 133-160, "Radical change": \<open>Inl\<close> is a \<^verbatim>\<open>return true\<close>, \<open>Inr\<close> the state
  with which the function goes on to line 163.
\<close>

definition radical_change :: "uint32 \<Rightarrow> Weather \<Rightarrow> (bool \<times> Weather) + Weather" where
  "radical_change rnd w =
     (if m_type w \<noteq> WEATHER_TYPE_FINE then
        (if m_intensity w < 0.33333334
         then Inl (True, w\<lparr>m_intensity := 0.9999\<rparr>)
         else if m_intensity w > 0.6666667 \<and> rnd < 50
         then Inl (True, w\<lparr>m_intensity := m_intensity w - 0.6666667\<rparr>)
         else Inr (w\<lparr>m_type := WEATHER_TYPE_FINE, m_intensity := 0\<rparr>))
      else Inr w)"

text \<open>Lines 163-175: the new type from the chances of the season.\<close>

definition pick_type :: "WeatherSeasonChances \<Rightarrow> uint32 \<Rightarrow> WeatherType" where
  "pick_type c rnd =
     (let chance1 = rainChance c;
          chance2 = chance1 + snowChance c;
          chance3 = chance2 + stormChance c
      in if rnd \<le> chance1 then WEATHER_TYPE_RAIN
         else if rnd \<le> chance2 then WEATHER_TYPE_SNOW
         else if rnd \<le> chance3 then WEATHER_TYPE_STORM
         else WEATHER_TYPE_FINE)"

text \<open>Lines 183-199: the new intensity.\<close>

definition pick_intensity :: "uint32 \<Rightarrow> Random \<Rightarrow> WeatherType \<Rightarrow> real" where
  "pick_intensity u r type =
     (if type = WEATHER_TYPE_FINE then 0
      else if u < 90 then rand_norm r * 0.3333
      else if urand_severe r < 50 then rand_norm r * 0.3333 + 0.3334
      else rand_norm r * 0.3333 + 0.6667)"

text \<open>Lines 163-202 together, with the comparison against the values of entry.\<close>

definition new_weather ::
  "WeatherSeasonChances \<Rightarrow> uint32 \<Rightarrow> Random \<Rightarrow> WeatherType \<Rightarrow> real \<Rightarrow> Weather \<Rightarrow> bool \<times> Weather" where
  "new_weather c u r old_type old_intensity w =
     (let type = pick_type c (urand_pick r);
          w1 = w\<lparr>m_type := type, m_intensity := pick_intensity u r type\<rparr>
      in (m_type w1 \<noteq> old_type \<or> m_intensity w1 \<noteq> old_intensity, w1))"

definition ReGenerate :: "int \<Rightarrow> Random \<Rightarrow> Weather \<Rightarrow> bool \<times> Weather" where
  "ReGenerate tm_yday r w =
     (case m_weatherChances w of
        None \<Rightarrow> (False, w\<lparr>m_type := WEATHER_TYPE_FINE, m_intensity := 0\<rparr>)
      | Some chances \<Rightarrow>
          (let u = urand_u r in
           if u < 30 then (False, w)
           else
             (let old_type = m_type w;
                  old_intensity = m_intensity w;
                  w1 = get_fair u w
              in (case get_better u w1 of
                    Some res \<Rightarrow> res
                  | None \<Rightarrow>
                      (case get_worse u w1 of
                         Some res \<Rightarrow> res
                       | None \<Rightarrow>
                           (case radical_change (urand_heavy r) w1 of
                              Inl res \<Rightarrow> res
                            | Inr w2 \<Rightarrow>
                                new_weather (data chances (season tm_yday)) u r
                                  old_type old_intensity w2))))))"

subsection \<open>Update (lines 51-78)\<close>

text \<open>
  \<open>triggerScripts\<close> is the default argument of \<^verbatim>\<open>UpdateWeather\<close>, which the header
  declares. The two notifications of lines 71 and 74 are the last two events.
\<close>

definition Update ::
  "bool \<Rightarrow> bool \<Rightarrow> int \<Rightarrow> Random \<Rightarrow> uint32 \<Rightarrow> Weather \<Rightarrow> bool \<times> Weather \<times> event list" where
  "Update triggerScripts players tm_yday r diff w =
     (let w1 = (if GetCurrent (m_timer w) \<ge> 0
                then w\<lparr>m_timer := timer_Update (uint diff) (m_timer w)\<rparr>
                else w\<lparr>m_timer := SetCurrent 0 (m_timer w)\<rparr>);
          notify = [OnWeatherUpdate diff, FireOnWeatherUpdate]
      in if Passed (m_timer w1) then
           (let w2 = w1\<lparr>m_timer := Reset (m_timer w1)\<rparr>;
                (changed, w3) = ReGenerate tm_yday r w2
            in if changed then
                 (let (sent, w4, evs) = UpdateWeather triggerScripts players w3
                  in if \<not> sent then (False, w4, evs)
                     else (True, w4, evs @ notify))
               else (True, w3, notify))
         else (True, w1, notify))"

subsection \<open>Notions of the specification\<close>

text \<open>
  The reference table of the spec (section 4.2), written type by type from its words:
  below 0.27 Fine; rain, snow and storm in a light band below 0.40, a medium band below
  0.70 and a heavy band; one state each for black rain and thunders; Fine for Fine and
  for a value that is not recognised. The spec asks for thresholds that match the
  reference bit for bit, so its 0.27, 0.40 and 0.70 are the single-precision numbers
  of the reference.
\<close>

fun Classify_spec :: "WeatherType \<Rightarrow> real \<Rightarrow> WeatherState" where
  "Classify_spec WEATHER_TYPE_RAIN i =
     (if i < float_0_27 then WEATHER_STATE_FINE
      else if i < float_0_40 then WEATHER_STATE_LIGHT_RAIN
      else if i < float_0_70 then WEATHER_STATE_MEDIUM_RAIN
      else WEATHER_STATE_HEAVY_RAIN)"
| "Classify_spec WEATHER_TYPE_SNOW i =
     (if i < float_0_27 then WEATHER_STATE_FINE
      else if i < float_0_40 then WEATHER_STATE_LIGHT_SNOW
      else if i < float_0_70 then WEATHER_STATE_MEDIUM_SNOW
      else WEATHER_STATE_HEAVY_SNOW)"
| "Classify_spec WEATHER_TYPE_STORM i =
     (if i < float_0_27 then WEATHER_STATE_FINE
      else if i < float_0_40 then WEATHER_STATE_LIGHT_SANDSTORM
      else if i < float_0_70 then WEATHER_STATE_MEDIUM_SANDSTORM
      else WEATHER_STATE_HEAVY_SANDSTORM)"
| "Classify_spec WEATHER_TYPE_BLACKRAIN i =
     (if i < float_0_27 then WEATHER_STATE_FINE else WEATHER_STATE_BLACKRAIN)"
| "Classify_spec WEATHER_TYPE_THUNDERS i =
     (if i < float_0_27 then WEATHER_STATE_FINE else WEATHER_STATE_THUNDERS)"
| "Classify_spec WEATHER_TYPE_FINE i = WEATHER_STATE_FINE"
| "Classify_spec (WEATHER_TYPE_OTHER n) i = WEATHER_STATE_FINE"

text \<open>
  Lines 53-56 and 59-63 of \<^verbatim>\<open>Update\<close>: the state after the step of the timer, and
  whether the timer has passed and \<^verbatim>\<open>ReGenerate\<close>, called after the reset of the
  timer, reports a change. This is the condition under which line 66 calls
  \<^verbatim>\<open>UpdateWeather\<close>.
\<close>

definition advance_timer :: "uint32 \<Rightarrow> Weather \<Rightarrow> Weather" where
  "advance_timer diff w =
     (if GetCurrent (m_timer w) \<ge> 0
      then w\<lparr>m_timer := timer_Update (uint diff) (m_timer w)\<rparr>
      else w\<lparr>m_timer := SetCurrent 0 (m_timer w)\<rparr>)"

definition weather_changes :: "int \<Rightarrow> Random \<Rightarrow> uint32 \<Rightarrow> Weather \<Rightarrow> bool" where
  "weather_changes tm_yday r diff w \<longleftrightarrow>
     Passed (m_timer (advance_timer diff w))
     \<and> fst (ReGenerate tm_yday r
              ((advance_timer diff w)\<lparr>m_timer := Reset (m_timer (advance_timer diff w))\<rparr>))"

text \<open>A broadcast is a message handed to \<^verbatim>\<open>SendZoneMessage\<close>.\<close>

definition is_broadcast :: "event \<Rightarrow> bool" where
  "is_broadcast e = (case e of SendZoneMessage _ _ \<Rightarrow> True | _ \<Rightarrow> False)"

definition broadcasts :: "event list \<Rightarrow> nat" where
  "broadcasts evs = length (filter is_broadcast evs)"

text \<open>
  Modelled from the spec: the caller of \<^verbatim>\<open>Update\<close> is not part of the sources at
  hand. By the caller contract of the spec (section 6) it calls Tick once per elapsed
  time and stops driving the zone once Tick reports that it is not active. A tick gives
  the answer of the zone to the message, the day of the year, the draws and the elapsed
  time.
\<close>

type_synonym tick = "bool \<times> int \<times> Random \<times> uint32"

fun drive :: "bool \<Rightarrow> tick list \<Rightarrow> Weather \<Rightarrow> Weather \<times> event list" where
  "drive triggerScripts [] w = (w, [])"
| "drive triggerScripts ((players, tm_yday, r, diff) # ticks) w =
     (let (active, w', evs) = Update triggerScripts players tm_yday r diff w
      in if active
         then (let (w'', evs') = drive triggerScripts ticks w' in (w'', evs @ evs'))
         else (w', evs))"

text \<open>The four types among which lines 168-175 choose.\<close>

definition seasonal_types :: "WeatherType set" where
  "seasonal_types =
     {WEATHER_TYPE_FINE, WEATHER_TYPE_RAIN, WEATHER_TYPE_SNOW, WEATHER_TYPE_STORM}"

text \<open>
  A chance table for the examples: rain 50, snow 30, storm 10 in spring, summer and
  fall, and rain 10, snow 60, storm 0 in winter.
\<close>

definition example_chances :: WeatherData where
  "example_chances =
     \<lparr>data = (\<lambda>s. if s = 3
                  then \<lparr>rainChance = 10, snowChance = 60, stormChance = 0\<rparr>
                  else \<lparr>rainChance = 50, snowChance = 30, stormChance = 10\<rparr>)\<rparr>"

text \<open>
  Inputs for the examples: a zone with the example chances and an interval of 1 whose
  type and intensity are given, and the draws of a pass whose first draw is given (the
  draw of line 150 is 70, the type draw of line 167 is 20, the draw of line 194 is 10 and
  \<^verbatim>\<open>rand_norm\<close> gives 0.5).
\<close>

definition zone :: "WeatherType \<Rightarrow> real \<Rightarrow> Weather" where
  "zone type intensity =
     (Weather_new 1 (Some example_chances))\<lparr>m_type := type, m_intensity := intensity\<rparr>"

definition draws :: "uint32 \<Rightarrow> Random" where
  "draws u =
     \<lparr>urand_u = u, urand_heavy = 70, urand_pick = 20, urand_severe = 10, rand_norm = 0.5\<rparr>"

section \<open>Properties\<close>

subsection \<open>Auxiliary facts\<close>

lemmas float_literals = float_0_27_def float_0_40_def float_0_70_def

lemma float_literals_near:
  "0.27 < float_0_27 \<and> float_0_27 < 0.27000002
   \<and> 0.40 < float_0_40 \<and> float_0_40 < 0.40000001
   \<and> 0.69999998 < float_0_70 \<and> float_0_70 < 0.70"
  by (simp add: float_literals)

lemma u_ge_30: "(30::uint32) \<le> u \<Longrightarrow> \<not> u < 30"
  by simp

lemma u_lt_60: "(u::uint32) < 60 \<Longrightarrow> u < 90"
  by (simp add: word_less_nat_alt)

lemma u_ge_90: "(90::uint32) \<le> u \<Longrightarrow> \<not> u < 90 \<and> \<not> u < 60 \<and> \<not> u < 30"
  by (simp add: word_less_nat_alt word_le_nat_alt)

lemma pick_type_seasonal: "pick_type c rnd \<in> seasonal_types"
  by (simp add: pick_type_def seasonal_types_def Let_def)

lemma season_in_year:
  assumes "0 \<le> d" and "d \<le> 365"
  shows "season d = nat ((d - 78 + 365) div 91 mod 4) \<and> season d < 4"
proof -
  let ?k = "(d - 78 + 365) div 91 mod 4"
  have q: "(d - 78 + 365) sdiv 91 = (d - 78 + 365) div 91"
    using assms by (simp add: signed_divide_int_def sgn_if)
  have q0: "0 \<le> (d - 78 + 365) div 91"
    using assms by (simp add: pos_imp_zdiv_nonneg_iff)
  have m: "((d - 78 + 365) div 91) smod 4 = ?k"
    using q0 by (simp add: signed_modulo_int_def sgn_if)
  have k: "0 \<le> ?k" "?k < 4"
    by simp_all
  have "unat (word_of_int ?k :: uint32) = nat ?k"
    using k by (simp add: unat_eq_nat_uint uint_word_of_int take_bit_eq_mod)
  moreover have "season d = unat (word_of_int ?k :: uint32)"
    unfolding season_def q m ..
  ultimately show ?thesis
    using k by (simp add: nat_less_iff)
qed

lemma ReGenerate_season_only:
  assumes "\<forall>c. m_weatherChances w = Some c \<longrightarrow> data c (season d) = data c (season d')"
  shows "ReGenerate d r w = ReGenerate d' r w"
  using assms
  by (cases "m_weatherChances w")
     (auto simp add: ReGenerate_def Let_def split: option.splits sum.splits)

lemma season_day_100: "season 100 = 0"
  by (simp add: season_def signed_divide_int_def signed_modulo_int_def)

lemma season_days: "season 78 = 0 \<and> season 169 = 1 \<and> season 0 = 3"
  by (simp add: season_def signed_divide_int_def signed_modulo_int_def)

lemma Update_no_chances:
  assumes "m_weatherChances w = None"
  shows "\<exists>w'. Update ts players tm_yday r diff w
                 = (True, w', [OnWeatherUpdate diff, FireOnWeatherUpdate])
              \<and> m_weatherChances w' = None
              \<and> (m_type w' = WEATHER_TYPE_FINE \<and> m_intensity w' = 0
                  \<or> m_type w' = m_type w \<and> m_intensity w' = m_intensity w)"
  using assms by (simp add: Update_def ReGenerate_def Let_def)

lemma drive_no_chances:
  assumes "m_weatherChances w = None"
  shows "broadcasts (snd (drive ts ticks w)) = 0
         \<and> m_weatherChances (fst (drive ts ticks w)) = None
         \<and> (m_type (fst (drive ts ticks w)) = WEATHER_TYPE_FINE
              \<and> m_intensity (fst (drive ts ticks w)) = 0
            \<or> m_type (fst (drive ts ticks w)) = m_type w
              \<and> m_intensity (fst (drive ts ticks w)) = m_intensity w)"
  using assms
proof (induction ticks arbitrary: w)
  case Nil
  then show ?case
    by (simp add: broadcasts_def)
next
  case (Cons t ticks)
  obtain players tm_yday r diff where t: "t = (players, tm_yday, r, diff)"
    by (cases t)
  from Update_no_chances [OF Cons.prems, of ts players tm_yday r diff]
  obtain w' where
    u: "Update ts players tm_yday r diff w
          = (True, w', [OnWeatherUpdate diff, FireOnWeatherUpdate])"
    and n: "m_weatherChances w' = None"
    and k: "m_type w' = WEATHER_TYPE_FINE \<and> m_intensity w' = 0
            \<or> m_type w' = m_type w \<and> m_intensity w' = m_intensity w"
    by blast
  have d: "drive ts (t # ticks) w =
             (fst (drive ts ticks w'),
              [OnWeatherUpdate diff, FireOnWeatherUpdate] @ snd (drive ts ticks w'))"
    by (simp add: t u split: prod.splits)
  from Cons.IH [OF n] k show ?case
    by (auto simp add: d broadcasts_def is_broadcast_def)
qed

subsection \<open>UpdateWeather: the intensity that is sent\<close>

text \<open>
  A zone that rains with a stored intensity of exactly 0: the stored value is neither
  at least 1 nor below 0, so line 230 builds the message with intensity 0, which is
  below 0.0001, while the type is not Fine. \<^verbatim>\<open>Update\<close> reaches this state by
  itself: from rain of intensity 0.33333334 the draw 40 takes the branch of line 121,
  the intensity becomes 0 with the type still Rain, and the message carries 0.
\<close>

theorem UpdateWeather_sends_zero_counterexample:
  "m_type (zone WEATHER_TYPE_RAIN 0) \<noteq> WEATHER_TYPE_FINE
   \<and> snd (snd (UpdateWeather True True (zone WEATHER_TYPE_RAIN 0)))
       = [SendZoneMessage WEATHER_STATE_FINE 0, OnWeatherChange WEATHER_STATE_FINE 0,
          FireOnWeatherChange]
   \<and> \<not> 0.0001 \<le> m_intensity (fst (snd (UpdateWeather True True (zone WEATHER_TYPE_RAIN 0))))
   \<and> Update True True 100 (draws 40) 1 (zone WEATHER_TYPE_RAIN 0.33333334)
       = (True, zone WEATHER_TYPE_RAIN 0,
          [SendZoneMessage WEATHER_STATE_FINE 0, OnWeatherChange WEATHER_STATE_FINE 0,
           FireOnWeatherChange, OnWeatherUpdate 1, FireOnWeatherUpdate])"
  by (simp add: Update_def UpdateWeather_def zone_def draws_def Weather_new_def
        GetWeatherState_def float_literals ReGenerate_def get_fair_def get_better_def
        GetCurrent_def timer_Update_def Passed_def Reset_def Let_def)

text \<open>
  C1, as the code has it. On every call of \<^verbatim>\<open>UpdateWeather\<close> the intensity that is
  stored and sent is 0.9999 when the stored one was at least 1, 0.0001 when it was
  negative, and the stored one unchanged otherwise. So it lies in the half-open range
  from 0 to 1: it is never 1 and never negative, but a stored 0 is sent as 0, whatever
  the type. The call hands exactly one message to the zone, and it carries this
  intensity.
\<close>

theorem UpdateWeather_intensity_range:
  assumes "UpdateWeather triggerScripts players w = (sent, w', evs)"
  shows "m_intensity w' =
           (if 1 \<le> m_intensity w then 0.9999
            else if m_intensity w < 0 then 0.0001
            else m_intensity w)
         \<and> 0 \<le> m_intensity w' \<and> m_intensity w' < 1
         \<and> filter is_broadcast evs = [SendZoneMessage (GetWeatherState w') (m_intensity w')]"
  using assms
  by (auto simp add: UpdateWeather_def Let_def is_broadcast_def split: if_splits)

theorem UpdateWeather_intensity_range_witness:
  "m_intensity (fst (snd (UpdateWeather True True (zone WEATHER_TYPE_SNOW 1.5)))) = 0.9999
   \<and> m_intensity (fst (snd (UpdateWeather True False (zone WEATHER_TYPE_SNOW (- 0.25))))) = 0.0001"
  using
    UpdateWeather_intensity_range [of True True "zone WEATHER_TYPE_SNOW 1.5"
      "fst (UpdateWeather True True (zone WEATHER_TYPE_SNOW 1.5))"
      "fst (snd (UpdateWeather True True (zone WEATHER_TYPE_SNOW 1.5)))"
      "snd (snd (UpdateWeather True True (zone WEATHER_TYPE_SNOW 1.5)))"]
    UpdateWeather_intensity_range [of True False "zone WEATHER_TYPE_SNOW (- 0.25)"
      "fst (UpdateWeather True False (zone WEATHER_TYPE_SNOW (- 0.25)))"
      "fst (snd (UpdateWeather True False (zone WEATHER_TYPE_SNOW (- 0.25))))"
      "snd (snd (UpdateWeather True False (zone WEATHER_TYPE_SNOW (- 0.25))))"]
  by (simp add: zone_def Weather_new_def)

subsection \<open>Update: the notification of the script manager\<close>

text \<open>
  A rainy zone whose timer passes with this call; the draw 70 makes the weather worse,
  \<^verbatim>\<open>ReGenerate\<close> reports a change, the message finds no player, and line 67 returns
  false: the only event is the message, and \<^verbatim>\<open>OnWeatherUpdate\<close> is not called.
\<close>

theorem Update_inactive_counterexample:
  "Update True False 100 (draws 70) 1 (zone WEATHER_TYPE_RAIN 0.5)
     = (False, zone WEATHER_TYPE_RAIN 0.83333334,
        [SendZoneMessage WEATHER_STATE_HEAVY_RAIN 0.83333334])
   \<and> OnWeatherUpdate 1 \<notin>
       set (snd (snd (Update True False 100 (draws 70) 1 (zone WEATHER_TYPE_RAIN 0.5))))"
  by (simp add: Update_def UpdateWeather_def zone_def draws_def Weather_new_def
        GetWeatherState_def float_literals ReGenerate_def get_fair_def get_better_def
        get_worse_def GetCurrent_def timer_Update_def Passed_def Reset_def Let_def)

text \<open>
  C2, as the code has it. A call of \<^verbatim>\<open>Update\<close> returns false exactly when the timer
  has passed, \<^verbatim>\<open>ReGenerate\<close> reports a change and the message finds no player. Such
  a call returns at line 67, before the notification: it sends its one message and
  notifies nobody. Every other call returns true and ends with the notification of the
  script manager (and of the event system), once, after the work on the timer, the
  weather and the message, whether or not the weather changed. A message is sent
  exactly when the timer has passed and \<^verbatim>\<open>ReGenerate\<close> reports a change.
\<close>

theorem Update_notifies_when_active:
  assumes "Update triggerScripts players tm_yday r diff w = (active, w', evs)"
  shows "(active \<longleftrightarrow> \<not> (weather_changes tm_yday r diff w \<and> \<not> players))
         \<and> broadcasts evs = (if weather_changes tm_yday r diff w then 1 else 0)
         \<and> (active \<longrightarrow>
              (\<exists>pre. evs = pre @ [OnWeatherUpdate diff, FireOnWeatherUpdate]
                     \<and> (\<forall>x. OnWeatherUpdate x \<notin> set pre)))
         \<and> (\<not> active \<longrightarrow>
              \<not> players \<and> (\<forall>x. OnWeatherUpdate x \<notin> set evs)
              \<and> (\<exists>state intensity. evs = [SendZoneMessage state intensity]))"
  using assms
  by (auto simp add: Update_def UpdateWeather_def weather_changes_def advance_timer_def
        broadcasts_def is_broadcast_def Let_def
        split: if_splits prod.splits)

theorem Update_notifies_when_active_witness:
  "fst (Update True True 100 (draws 70) 1 (zone WEATHER_TYPE_RAIN 0.5))
   \<and> (\<exists>pre. snd (snd (Update True True 100 (draws 70) 1 (zone WEATHER_TYPE_RAIN 0.5)))
              = pre @ [OnWeatherUpdate 1, FireOnWeatherUpdate]
            \<and> (\<forall>x. OnWeatherUpdate x \<notin> set pre))
   \<and> weather_changes 100 (draws 70) 1 (zone WEATHER_TYPE_RAIN 0.5)
   \<and> \<not> fst (Update True False 100 (draws 70) 1 (zone WEATHER_TYPE_RAIN 0.5))
   \<and> (\<forall>x. OnWeatherUpdate x \<notin>
            set (snd (snd (Update True False 100 (draws 70) 1 (zone WEATHER_TYPE_RAIN 0.5)))))
   \<and> fst (Update True False 100 (draws 29) 1 (zone WEATHER_TYPE_RAIN 0.5))"
proof -
  let ?w = "zone WEATHER_TYPE_RAIN 0.5"
  let ?seen = "Update True True 100 (draws 70) 1 ?w"
  let ?unseen = "Update True False 100 (draws 70) 1 ?w"
  let ?calm = "Update True False 100 (draws 29) 1 ?w"
  have changes: "weather_changes 100 (draws 70) 1 ?w"
    by (simp add: weather_changes_def advance_timer_def zone_def draws_def Weather_new_def
          ReGenerate_def get_fair_def get_better_def get_worse_def
          GetCurrent_def timer_Update_def Passed_def Reset_def Let_def)
  have calm: "\<not> weather_changes 100 (draws 29) 1 ?w"
    by (simp add: weather_changes_def advance_timer_def zone_def draws_def Weather_new_def
          ReGenerate_def GetCurrent_def timer_Update_def Passed_def Reset_def Let_def)
  have seen: "?seen = (fst ?seen, fst (snd ?seen), snd (snd ?seen))"
    by simp
  have unseen: "?unseen = (fst ?unseen, fst (snd ?unseen), snd (snd ?unseen))"
    by simp
  have quiet: "?calm = (fst ?calm, fst (snd ?calm), snd (snd ?calm))"
    by simp
  from Update_notifies_when_active [OF seen] Update_notifies_when_active [OF unseen]
    Update_notifies_when_active [OF quiet] changes calm
  show ?thesis
    by blast
qed

subsection \<open>ReGenerate: the draw below 30\<close>

text \<open>
  C7. For every state with a chance table, a first draw below 30 makes \<^verbatim>\<open>ReGenerate\<close>
  return false and leave the whole state, type and intensity included, as it was.
\<close>

theorem ReGenerate_no_change:
  assumes "m_weatherChances w = Some chances" and "urand_u r < 30"
  shows "ReGenerate tm_yday r w = (False, w)"
  using assms by (simp add: ReGenerate_def)

theorem ReGenerate_no_change_witness:
  "m_weatherChances (zone WEATHER_TYPE_STORM 0.5) = Some example_chances
   \<and> urand_u (draws 29) < 30
   \<and> ReGenerate 100 (draws 29) (zone WEATHER_TYPE_STORM 0.5)
       = (False, zone WEATHER_TYPE_STORM 0.5)"
  using ReGenerate_no_change
          [of "zone WEATHER_TYPE_STORM 0.5" example_chances "draws 29" 100]
  by (simp add: zone_def draws_def Weather_new_def)

subsection \<open>ReGenerate: the collapse to fine weather\<close>

text \<open>
  A light rain of intensity 0.2 and the draw 45. Lines 115-119 set the type to Fine and
  the intensity to 0; the test of line 121 then finds the type Fine, so line 123 does
  not run. The pass ends in the new choice of lines 163-202, here rain of intensity
  0.5 * 0.3333; an intensity of 0 - 0.33333334 is never stored.
\<close>

theorem ReGenerate_get_fair_counterexample:
  "get_better 45 (get_fair 45 (zone WEATHER_TYPE_RAIN 0.2)) = None
   \<and> ReGenerate 100 (draws 45) (zone WEATHER_TYPE_RAIN 0.2)
       = (True, zone WEATHER_TYPE_RAIN 0.16665)"
  by (simp add: zone_def draws_def Weather_new_def ReGenerate_def example_chances_def
        pick_type_def pick_intensity_def new_weather_def get_fair_def get_better_def
        get_worse_def radical_change_def season_day_100 Let_def)

text \<open>
  C3, as the code has it. For every state with a chance table and every first draw from
  30 to 59 with a current intensity below 0.33333334 (the 1/3 of the code): lines
  115-119 set the type to Fine and the intensity to 0 and do not return. The test of
  line 121 is made on the state so changed and fails on its type, so the decrease is
  not applied; neither are the increase of line 129 and the radical change. The pass
  goes on to the choice of a new type and intensity for the season, from the Fine state,
  and compares the outcome with the type and intensity of entry.
\<close>

theorem ReGenerate_get_fair:
  assumes "m_weatherChances w = Some chances"
    and "30 \<le> urand_u r" and "urand_u r < 60"
    and "m_intensity w < 0.33333334"
  shows "get_fair (urand_u r) w = w\<lparr>m_type := WEATHER_TYPE_FINE, m_intensity := 0\<rparr>
         \<and> get_better (urand_u r) (get_fair (urand_u r) w) = None
         \<and> get_worse (urand_u r) (get_fair (urand_u r) w) = None
         \<and> radical_change (urand_heavy r) (get_fair (urand_u r) w)
             = Inr (w\<lparr>m_type := WEATHER_TYPE_FINE, m_intensity := 0\<rparr>)
         \<and> ReGenerate tm_yday r w
             = new_weather (data chances (season tm_yday)) (urand_u r) r
                 (m_type w) (m_intensity w)
                 (w\<lparr>m_type := WEATHER_TYPE_FINE, m_intensity := 0\<rparr>)"
  using assms u_ge_30 [of "urand_u r"] u_lt_60 [of "urand_u r"]
  by (simp add: ReGenerate_def get_fair_def get_better_def get_worse_def
        radical_change_def Let_def)

theorem ReGenerate_get_fair_witness:
  "m_weatherChances (zone WEATHER_TYPE_SNOW 0.25) = Some example_chances
   \<and> 30 \<le> urand_u (draws 30) \<and> urand_u (draws 30) < 60
   \<and> m_intensity (zone WEATHER_TYPE_SNOW 0.25) < 0.33333334
   \<and> get_better (urand_u (draws 30)) (get_fair (urand_u (draws 30)) (zone WEATHER_TYPE_SNOW 0.25))
       = None
   \<and> ReGenerate 100 (draws 30) (zone WEATHER_TYPE_SNOW 0.25)
       = (True, zone WEATHER_TYPE_RAIN 0.16665)"
  using ReGenerate_get_fair
          [of "zone WEATHER_TYPE_SNOW 0.25" example_chances "draws 30" 100]
  by (simp add: zone_def draws_def Weather_new_def example_chances_def get_better_def
        pick_type_def pick_intensity_def new_weather_def season_day_100 Let_def)

subsection \<open>ReGenerate: the radical change\<close>

text \<open>
  C5. With a chance table, a first draw of at least 90 and a type other than Fine
  (so that lines 121 and 127 fall through), writing 1/3 and 2/3 for the literals
  0.33333334 and 0.6666667 of the code:
  an intensity below 1/3 becomes 0.9999 and true is returned, the type unchanged;
  an intensity above 2/3 with a second draw below 50 is decreased by 2/3 and true is
  returned; an intensity above 2/3 with a second draw of 50 or more, and an intensity
  from 1/3 to 2/3, clear the state to Fine and 0, and the pass goes on to the choice of
  a new type and intensity for the season.
\<close>

theorem ReGenerate_radical_change:
  assumes "m_weatherChances w = Some chances"
    and "90 \<le> urand_u r"
    and "m_type w \<noteq> WEATHER_TYPE_FINE"
  shows "(m_intensity w < 0.33333334 \<longrightarrow>
            ReGenerate tm_yday r w = (True, w\<lparr>m_intensity := 0.9999\<rparr>))
         \<and> (m_intensity w > 0.6666667 \<and> urand_heavy r < 50 \<longrightarrow>
            ReGenerate tm_yday r w = (True, w\<lparr>m_intensity := m_intensity w - 0.6666667\<rparr>))
         \<and> (m_intensity w > 0.6666667 \<and> \<not> urand_heavy r < 50 \<longrightarrow>
            radical_change (urand_heavy r) w
              = Inr (w\<lparr>m_type := WEATHER_TYPE_FINE, m_intensity := 0\<rparr>)
            \<and> ReGenerate tm_yday r w
              = new_weather (data chances (season tm_yday)) (urand_u r) r
                  (m_type w) (m_intensity w)
                  (w\<lparr>m_type := WEATHER_TYPE_FINE, m_intensity := 0\<rparr>))
         \<and> (0.33333334 \<le> m_intensity w \<and> m_intensity w \<le> 0.6666667 \<longrightarrow>
            radical_change (urand_heavy r) w
              = Inr (w\<lparr>m_type := WEATHER_TYPE_FINE, m_intensity := 0\<rparr>)
            \<and> ReGenerate tm_yday r w
              = new_weather (data chances (season tm_yday)) (urand_u r) r
                  (m_type w) (m_intensity w)
                  (w\<lparr>m_type := WEATHER_TYPE_FINE, m_intensity := 0\<rparr>))"
  using assms u_ge_90 [of "urand_u r"]
  by (simp add: ReGenerate_def get_fair_def get_better_def get_worse_def
        radical_change_def Let_def)

theorem ReGenerate_radical_change_witness:
  "ReGenerate 100 (draws 95) (zone WEATHER_TYPE_RAIN 0.25)
     = (True, zone WEATHER_TYPE_RAIN 0.9999)
   \<and> ReGenerate 100 ((draws 95)\<lparr>urand_heavy := 49\<rparr>) (zone WEATHER_TYPE_RAIN 0.75)
     = (True, zone WEATHER_TYPE_RAIN (0.75 - 0.6666667))
   \<and> ReGenerate 100 (draws 95) (zone WEATHER_TYPE_SNOW 0.75)
     = (True, zone WEATHER_TYPE_RAIN (0.5 * 0.3333 + 0.3334))
   \<and> ReGenerate 100 (draws 95) (zone WEATHER_TYPE_SNOW 0.5)
     = (True, zone WEATHER_TYPE_RAIN (0.5 * 0.3333 + 0.3334))"
  using
    ReGenerate_radical_change
      [of "zone WEATHER_TYPE_RAIN 0.25" example_chances "draws 95" 100]
    ReGenerate_radical_change
      [of "zone WEATHER_TYPE_RAIN 0.75" example_chances "(draws 95)\<lparr>urand_heavy := 49\<rparr>" 100]
    ReGenerate_radical_change
      [of "zone WEATHER_TYPE_SNOW 0.75" example_chances "draws 95" 100]
    ReGenerate_radical_change
      [of "zone WEATHER_TYPE_SNOW 0.5" example_chances "draws 95" 100]
  by (simp add: zone_def draws_def Weather_new_def example_chances_def
        pick_type_def pick_intensity_def new_weather_def season_day_100 Let_def)

subsection \<open>GetWeatherState against the table of the specification\<close>

text \<open>
  C4. \<^verbatim>\<open>GetWeatherState\<close> is the reference table, with the thresholds 0.27, 0.40
  and 0.70 as the single-precision literals of the reference: below 0.27 the state is
  Fine for every type; from 0.27 on, rain, snow and storm give their light state below
  0.40, their medium state below 0.70 and their heavy state otherwise, black rain and
  thunders give their one state, and Fine or a value that is not recognised gives
  Fine. Hence from 0.27 on no type of the enumeration other than Fine gives the state
  Fine: the state is Fine exactly for the type Fine and for the values that are not
  recognised, which the table sends to Fine.
\<close>

theorem GetWeatherState_table:
  "GetWeatherState w = Classify_spec (m_type w) (m_intensity w)
   \<and> (m_intensity w < float_0_27 \<longrightarrow> GetWeatherState w = WEATHER_STATE_FINE)
   \<and> (float_0_27 \<le> m_intensity w
        \<and> m_type w \<in> {WEATHER_TYPE_RAIN, WEATHER_TYPE_SNOW, WEATHER_TYPE_STORM,
                      WEATHER_TYPE_THUNDERS, WEATHER_TYPE_BLACKRAIN} \<longrightarrow>
        GetWeatherState w \<noteq> WEATHER_STATE_FINE)
   \<and> (float_0_27 \<le> m_intensity w \<longrightarrow>
        (GetWeatherState w = WEATHER_STATE_FINE) =
        (m_type w = WEATHER_TYPE_FINE \<or> (\<exists>n. m_type w = WEATHER_TYPE_OTHER n)))"
  by (cases "m_type w") (simp_all add: GetWeatherState_def)

text \<open>
  The table at single-precision intensities: 0.5, 0.25, 0.375 and 0.75, and the three
  thresholds themselves, each of which belongs to the band above it.
\<close>

theorem GetWeatherState_table_witness:
  "float_0_27 \<le> m_intensity (zone WEATHER_TYPE_SNOW 0.5)
   \<and> GetWeatherState (zone WEATHER_TYPE_SNOW 0.5) = WEATHER_STATE_MEDIUM_SNOW
   \<and> m_intensity (zone WEATHER_TYPE_STORM 0.25) < float_0_27
   \<and> GetWeatherState (zone WEATHER_TYPE_STORM 0.25) = WEATHER_STATE_FINE
   \<and> GetWeatherState (zone WEATHER_TYPE_STORM 0.375) = WEATHER_STATE_LIGHT_SANDSTORM
   \<and> GetWeatherState (zone WEATHER_TYPE_THUNDERS 0.75) = WEATHER_STATE_THUNDERS
   \<and> GetWeatherState (zone WEATHER_TYPE_RAIN float_0_27) = WEATHER_STATE_LIGHT_RAIN
   \<and> GetWeatherState (zone WEATHER_TYPE_RAIN float_0_40) = WEATHER_STATE_MEDIUM_RAIN
   \<and> GetWeatherState (zone WEATHER_TYPE_RAIN float_0_70) = WEATHER_STATE_HEAVY_RAIN
   \<and> GetWeatherState (zone WEATHER_TYPE_SNOW float_0_70) = WEATHER_STATE_HEAVY_SNOW
   \<and> GetWeatherState (zone WEATHER_TYPE_STORM float_0_70) = WEATHER_STATE_HEAVY_SANDSTORM"
  using GetWeatherState_table [of "zone WEATHER_TYPE_SNOW 0.5"]
    GetWeatherState_table [of "zone WEATHER_TYPE_STORM 0.25"]
    GetWeatherState_table [of "zone WEATHER_TYPE_STORM 0.375"]
    GetWeatherState_table [of "zone WEATHER_TYPE_THUNDERS 0.75"]
    GetWeatherState_table [of "zone WEATHER_TYPE_RAIN float_0_27"]
    GetWeatherState_table [of "zone WEATHER_TYPE_RAIN float_0_40"]
    GetWeatherState_table [of "zone WEATHER_TYPE_RAIN float_0_70"]
    GetWeatherState_table [of "zone WEATHER_TYPE_SNOW float_0_70"]
    GetWeatherState_table [of "zone WEATHER_TYPE_STORM float_0_70"]
  by (simp add: zone_def Weather_new_def float_literals)

subsection \<open>SetWeather called twice\<close>

text \<open>
  From the state of a new zone, rain of intensity 1 is set twice. The first call stores
  1 and \<^verbatim>\<open>UpdateWeather\<close> replaces it by 0.9999 before it sends; the second call
  compares the stored 0.9999 with the argument 1, stores again and sends again: two
  messages.
\<close>

theorem SetWeather_twice_counterexample:
  "broadcasts (snd (SetWeather WEATHER_TYPE_RAIN 1 True True (Weather_new 1 None)))
   + broadcasts (snd (SetWeather WEATHER_TYPE_RAIN 1 True True
                   (fst (SetWeather WEATHER_TYPE_RAIN 1 True True (Weather_new 1 None)))))
   = 2
   \<and> m_intensity (fst (SetWeather WEATHER_TYPE_RAIN 1 True True (Weather_new 1 None)))
       = 0.9999"
  by (simp add: SetWeather_def UpdateWeather_def Let_def broadcasts_def is_broadcast_def
        Weather_new_def)

text \<open>
  C6, as the code has it. If the requested type and intensity both equal the stored
  ones, \<^verbatim>\<open>SetWeather\<close> changes nothing and sends nothing; otherwise it stores both and
  calls \<^verbatim>\<open>UpdateWeather\<close>, which sends one message. When the intensity lies in the
  half-open range from 0 to 1, a second call with the same arguments changes nothing and
  sends nothing, so that two calls whose first changes a field send exactly one
  message. When the intensity is negative or at least 1, \<^verbatim>\<open>UpdateWeather\<close> stores
  the clamped value, and a second call with the same arguments sends again.
\<close>

theorem SetWeather_twice:
  "(m_type w = type \<and> m_intensity w = intensity \<longrightarrow>
      SetWeather type intensity ts players w = (w, []))
   \<and> (\<not> (m_type w = type \<and> m_intensity w = intensity) \<longrightarrow>
      SetWeather type intensity ts players w
        = snd (UpdateWeather ts players (w\<lparr>m_type := type, m_intensity := intensity\<rparr>))
      \<and> broadcasts (snd (SetWeather type intensity ts players w)) = 1)
   \<and> (0 \<le> intensity \<and> intensity < 1 \<longrightarrow>
      SetWeather type intensity ts' players' (fst (SetWeather type intensity ts players w))
        = (fst (SetWeather type intensity ts players w), []))
   \<and> (\<not> (m_type w = type \<and> m_intensity w = intensity) \<and> 0 \<le> intensity \<and> intensity < 1 \<longrightarrow>
      broadcasts (snd (SetWeather type intensity ts players w))
      + broadcasts (snd (SetWeather type intensity ts' players'
                           (fst (SetWeather type intensity ts players w)))) = 1)
   \<and> (\<not> (m_type w = type \<and> m_intensity w = intensity) \<and> (intensity < 0 \<or> 1 \<le> intensity) \<longrightarrow>
      broadcasts (snd (SetWeather type intensity ts' players'
                         (fst (SetWeather type intensity ts players w)))) = 1)"
  by (auto simp add: SetWeather_def UpdateWeather_def Let_def broadcasts_def is_broadcast_def)

theorem SetWeather_twice_witness:
  "broadcasts (snd (SetWeather WEATHER_TYPE_RAIN 0.5 True True (Weather_new 1 None))) = 1
   \<and> SetWeather WEATHER_TYPE_RAIN 0.5 True True
        (fst (SetWeather WEATHER_TYPE_RAIN 0.5 True True (Weather_new 1 None)))
       = (fst (SetWeather WEATHER_TYPE_RAIN 0.5 True True (Weather_new 1 None)), [])
   \<and> broadcasts (snd (SetWeather WEATHER_TYPE_RAIN 0.5 True True (Weather_new 1 None)))
     + broadcasts (snd (SetWeather WEATHER_TYPE_RAIN 0.5 True True
                     (fst (SetWeather WEATHER_TYPE_RAIN 0.5 True True (Weather_new 1 None)))))
     = 1
   \<and> SetWeather WEATHER_TYPE_FINE 0 True True (Weather_new 1 None) = (Weather_new 1 None, [])"
proof -
  have differs: "\<not> (m_type (Weather_new 1 None) = WEATHER_TYPE_RAIN
                      \<and> m_intensity (Weather_new 1 None) = 0.5)"
    by (simp add: Weather_new_def)
  have in_range: "(0::real) \<le> 0.5 \<and> (0.5::real) < 1"
    by simp
  have same: "m_type (Weather_new 1 None) = WEATHER_TYPE_FINE
              \<and> m_intensity (Weather_new 1 None) = 0"
    by (simp add: Weather_new_def)
  from SetWeather_twice [of "Weather_new 1 None" WEATHER_TYPE_RAIN "0.5" True True True True]
    SetWeather_twice [of "Weather_new 1 None" WEATHER_TYPE_FINE "0" True True True True]
    differs in_range same
  show ?thesis
    by blast
qed

subsection \<open>The season\<close>

text \<open>
  C8. For a day of the year from 0 to 365 the season index is
  ((day - 78 + 365) / 91) mod 4 in integer arithmetic, an index below 4; day 78 gives 0,
  day 169 gives 1, and day 0 gives 3 through the offset 365. The day reaches the state
  only through the row of the chance table that its season selects: two days whose
  seasons select equal rows give the same result of \<^verbatim>\<open>ReGenerate\<close>.
\<close>

theorem season_index:
  "(0 \<le> d \<and> d \<le> 365 \<longrightarrow> season d = nat ((d - 78 + 365) div 91 mod 4) \<and> season d < 4)
   \<and> season 78 = 0 \<and> season 169 = 1 \<and> season 0 = 3
   \<and> ((\<forall>c. m_weatherChances w = Some c \<longrightarrow> data c (season d) = data c (season d')) \<longrightarrow>
        ReGenerate d r w = ReGenerate d' r w)"
  using season_in_year [of d] ReGenerate_season_only [of w d d' r] season_days
  by blast

theorem season_index_witness:
  "(0::int) \<le> 260 \<and> (260::int) \<le> 365 \<and> season 260 = 2
   \<and> ReGenerate 260 (draws 95) (zone WEATHER_TYPE_FINE 0)
       = ReGenerate 270 (draws 95) (zone WEATHER_TYPE_FINE 0)"
proof -
  have rows: "\<forall>c. m_weatherChances (zone WEATHER_TYPE_FINE 0) = Some c \<longrightarrow>
                data c (season 260) = data c (season 270)"
    by (simp add: zone_def Weather_new_def example_chances_def season_def
          signed_divide_int_def signed_modulo_int_def)
  from season_index [of 260 "zone WEATHER_TYPE_FINE 0" 270 "draws 95"] rows
  show ?thesis
    by simp
qed

subsection \<open>ReGenerate without a chance table\<close>

text \<open>
  C9. Without a chance table \<^verbatim>\<open>ReGenerate\<close> sets the type to Fine and the intensity
  to 0 and returns false, whatever the state was. \<^verbatim>\<open>Update\<close> then never sends a
  message to the zone: it returns true, its only events are the two notifications of
  lines 71 and 74, the zone still has no chance table afterwards, and its weather is
  either what it was (the timer has not passed) or Fine with intensity 0. This lasts:
  however often the zone is driven, no message is sent and the chance table stays
  absent.
\<close>

theorem ReGenerate_no_chances:
  assumes "m_weatherChances w = None"
  shows "ReGenerate tm_yday r w
           = (False, w\<lparr>m_type := WEATHER_TYPE_FINE, m_intensity := 0\<rparr>)
         \<and> fst (Update ts players tm_yday r diff w)
         \<and> snd (snd (Update ts players tm_yday r diff w))
             = [OnWeatherUpdate diff, FireOnWeatherUpdate]
         \<and> broadcasts (snd (snd (Update ts players tm_yday r diff w))) = 0
         \<and> m_weatherChances (fst (snd (Update ts players tm_yday r diff w))) = None
         \<and> (m_type (fst (snd (Update ts players tm_yday r diff w))) = WEATHER_TYPE_FINE
              \<and> m_intensity (fst (snd (Update ts players tm_yday r diff w))) = 0
            \<or> m_type (fst (snd (Update ts players tm_yday r diff w))) = m_type w
              \<and> m_intensity (fst (snd (Update ts players tm_yday r diff w))) = m_intensity w)
         \<and> broadcasts (snd (drive ts ticks w)) = 0
         \<and> m_weatherChances (fst (drive ts ticks w)) = None"
proof -
  have regenerate: "ReGenerate tm_yday r w
                      = (False, w\<lparr>m_type := WEATHER_TYPE_FINE, m_intensity := 0\<rparr>)"
    using assms by (simp add: ReGenerate_def)
  from Update_no_chances [OF assms, of ts players tm_yday r diff]
  obtain w' where
    "Update ts players tm_yday r diff w
       = (True, w', [OnWeatherUpdate diff, FireOnWeatherUpdate])"
    and "m_weatherChances w' = None"
    and "m_type w' = WEATHER_TYPE_FINE \<and> m_intensity w' = 0
         \<or> m_type w' = m_type w \<and> m_intensity w' = m_intensity w"
    by blast
  with regenerate drive_no_chances [OF assms, of ts ticks] show ?thesis
    by (simp add: broadcasts_def is_broadcast_def)
qed

theorem ReGenerate_no_chances_witness:
  "m_weatherChances ((Weather_new 1 None)\<lparr>m_type := WEATHER_TYPE_SNOW, m_intensity := 0.5\<rparr>) = None
   \<and> ReGenerate 100 (draws 95)
        ((Weather_new 1 None)\<lparr>m_type := WEATHER_TYPE_SNOW, m_intensity := 0.5\<rparr>)
       = (False, Weather_new 1 None)
   \<and> snd (snd (Update True True 100 (draws 95) 1
        ((Weather_new 1 None)\<lparr>m_type := WEATHER_TYPE_SNOW, m_intensity := 0.5\<rparr>)))
       = [OnWeatherUpdate 1, FireOnWeatherUpdate]
   \<and> broadcasts (snd (drive True [(True, 100, draws 95, 1), (True, 100, draws 45, 1)]
        ((Weather_new 1 None)\<lparr>m_type := WEATHER_TYPE_SNOW, m_intensity := 0.5\<rparr>))) = 0"
  using ReGenerate_no_chances
    [of "(Weather_new 1 None)\<lparr>m_type := WEATHER_TYPE_SNOW, m_intensity := 0.5\<rparr>"
        100 "draws 95" True True 1 "[(True, 100, draws 95, 1), (True, 100, draws 45, 1)]"]
  by (simp add: Weather_new_def)

subsection \<open>ReGenerate: the types it can leave\<close>

text \<open>
  C10. \<^verbatim>\<open>ReGenerate\<close> leaves the type it found or one of Fine, Rain, Snow and Storm.
  So a state whose type is a value of the enumeration other than BlackRain and Thunders
  ends with one of these four, and a state that ends with BlackRain or with Thunders
  had that type before: the two are never introduced by \<^verbatim>\<open>ReGenerate\<close>, and only
  \<^verbatim>\<open>SetWeather\<close> stores them.
\<close>

theorem ReGenerate_seasonal_types:
  assumes "ReGenerate tm_yday r w = (changed, w')"
  shows "(m_type w' \<in> seasonal_types \<or> m_type w' = m_type w)
         \<and> (m_type w \<noteq> WEATHER_TYPE_BLACKRAIN \<and> m_type w \<noteq> WEATHER_TYPE_THUNDERS
              \<and> (\<forall>n. m_type w \<noteq> WEATHER_TYPE_OTHER n) \<longrightarrow>
            m_type w' \<in> seasonal_types)
         \<and> (m_type w' = WEATHER_TYPE_BLACKRAIN \<longrightarrow> m_type w = WEATHER_TYPE_BLACKRAIN)
         \<and> (m_type w' = WEATHER_TYPE_THUNDERS \<longrightarrow> m_type w = WEATHER_TYPE_THUNDERS)"
proof -
  have step: "m_type w' \<in> seasonal_types \<or> m_type w' = m_type w"
    using assms
      pick_type_seasonal [of "data (the (m_weatherChances w)) (season tm_yday)" "urand_pick r"]
    by (auto simp add: ReGenerate_def get_fair_def get_better_def get_worse_def
          radical_change_def new_weather_def Let_def seasonal_types_def
          split: option.splits if_splits sum.splits)
  then show ?thesis
    by (cases "m_type w") (auto simp add: seasonal_types_def)
qed

theorem ReGenerate_seasonal_types_witness:
  "m_type (zone WEATHER_TYPE_SNOW 0.5) \<noteq> WEATHER_TYPE_BLACKRAIN
   \<and> m_type (zone WEATHER_TYPE_SNOW 0.5) \<noteq> WEATHER_TYPE_THUNDERS
   \<and> m_type (snd (ReGenerate 100 (draws 95) (zone WEATHER_TYPE_SNOW 0.5))) \<in> seasonal_types"
proof -
  let ?res = "ReGenerate 100 (draws 95) (zone WEATHER_TYPE_SNOW 0.5)"
  have "?res = (fst ?res, snd ?res)"
    by simp
  from ReGenerate_seasonal_types [OF this] show ?thesis
    by (simp add: zone_def Weather_new_def)
qed

end
